theory Spec2Isabelle
  imports Main "HOL-Library.Sublist" "HOL-Library.AList"
begin

section \<open>Values, errors and the outside world\<close>

text \<open>
  \<^verbatim>\<open>publish.py\<close> is a build script: it reads a YAML manifest, scans one directory per
  content identifier, runs \<^verbatim>\<open>latexmk\<close> on each document and renders HTML pages. The model
  below is a shallow embedding of that script. Everything the script does to the outside
  is explicit: the file system is a value, every \<^verbatim>\<open>print\<close>, subprocess call and
  file-system mutation is appended to a trace, and every Python exception is a value of
  \<open>pyerr\<close>.
\<close>

text \<open>What \<^verbatim>\<open>yaml.safe_load\<close> returns. Mappings keep their insertion order, as a Python
  \<^verbatim>\<open>dict\<close> does. Floats and timestamps are not modelled.\<close>

datatype yval =
    YNull
  | YBool bool
  | YInt int
  | YStr string
  | YSeq "yval list"
  | YMap "(yval \<times> yval) list"

datatype pyerr =
    KeyError yval
  | TypeError
  | FileNotFoundError string
  | NotADirectoryError string
  | IsADirectoryError string
  | FileExistsError string
  | ShutilError string
  | CalledProcessError int "string list" string string
  | UnicodeDecodeError
  | YAMLError string
  | TemplateError string

text \<open>The file system: an association list from path strings to nodes, in the order in
  which the operating system enumerates them. A path string denotes the node stored under
  exactly that string: paths are relative to the working directory, with single \<^verbatim>\<open>/\<close>
  separators, and there are no links.\<close>

datatype node = File string | Dir

type_synonym filesys = "(string \<times> node) list"

text \<open>A content item, the dictionary built at lines 67-70.\<close>

record content =
  metadata :: yval
  tex_path :: string

text \<open>What the script does to the outside, in the order in which it does it: a line
  printed, a subprocess started, a template rendered with its three keyword arguments, and
  the calls that change the file system.\<close>

datatype event =
    Print string
  | Exec "string list"
  | Render string yval "content list" "content option"
  | Rmtree string
  | Makedirs string
  | Move string string
  | WriteFile string string
  | Copytree string string

record world =
  files :: filesys
  trace :: "event list"

text \<open>The result of a finished subprocess: its exit status, the bytes captured from its
  standard output and standard error, and the file system it leaves behind.\<close>

record proc =
  returncode :: int
  proc_stdout :: string
  proc_stderr :: string
  files_after :: filesys

text \<open>The libraries and programs the script calls but does not contain are parameters:
  the YAML parser, the \<^verbatim>\<open>latexmk\<close> executable (\<open>None\<close>: it cannot be started), the
  Jinja environment (looking a template up under \<^verbatim>\<open>templates\<close> and rendering it with the
  keyword arguments \<^verbatim>\<open>release\<close>, \<^verbatim>\<open>content_list\<close> and \<^verbatim>\<open>item\<close>), Python's
  \<^verbatim>\<open>str()\<close> of a list or a dictionary, and the decoding of captured bytes that
  \<^verbatim>\<open>text=True\<close> asks for (the locale's encoding; \<open>None\<close>: the bytes are not text in it).\<close>

record env =
  safe_load :: "string \<Rightarrow> pyerr + yval"
  latexmk :: "world \<Rightarrow> string list \<Rightarrow> proc option"
  jinja_render :: "filesys \<Rightarrow> string \<Rightarrow> yval \<Rightarrow> content list \<Rightarrow> content option \<Rightarrow> pyerr + string"
  py_repr :: "yval \<Rightarrow> string"
  decode :: "string \<Rightarrow> string option"

subsection \<open>Statements that change the world or raise\<close>

type_synonym 'a io = "world \<Rightarrow> (pyerr + 'a) \<times> world"

definition io_return :: "'a \<Rightarrow> 'a io" where
  "io_return x w = (Inr x, w)"

definition io_raise :: "pyerr \<Rightarrow> 'a io" where
  "io_raise e w = (Inl e, w)"

definition io_bind :: "'a io \<Rightarrow> ('a \<Rightarrow> 'b io) \<Rightarrow> 'b io" where
  "io_bind m f w = (case m w of (Inl e, w') \<Rightarrow> (Inl e, w') | (Inr x, w') \<Rightarrow> f x w')"

definition io_lift :: "pyerr + 'a \<Rightarrow> 'a io" where
  "io_lift r w = (r, w)"

definition emit :: "event \<Rightarrow> unit io" where
  "emit e w = (Inr (), w\<lparr>trace := trace w @ [e]\<rparr>)"

definition print :: "string \<Rightarrow> unit io" where
  "print s = emit (Print s)"

definition set_files :: "filesys \<Rightarrow> unit io" where
  "set_files fs w = (Inr (), w\<lparr>files := fs\<rparr>)"

subsection \<open>Python strings and dictionaries\<close>

definition sq :: string where
  "sq = [CHR 0x27]"

definition nl :: string where
  "nl = [CHR 0x0A]"

definition digit :: "nat \<Rightarrow> char" where
  "digit n = ''0123456789'' ! n"

function str_nat :: "nat \<Rightarrow> string" where
  "str_nat n = (if n < 10 then [digit n] else str_nat (n div 10) @ [digit (n mod 10)])"
  by pat_completeness auto
termination
  by (relation "measure id") auto

declare str_nat.simps [simp del]

definition str_int :: "int \<Rightarrow> string" where
  "str_int i = (if i < 0 then ''-'' @ str_nat (nat (- i)) else str_nat (nat i))"

text \<open>\<^verbatim>\<open>str(v)\<close>, also what an f-string does with \<^verbatim>\<open>{v}\<close>.\<close>

definition py_str :: "env \<Rightarrow> yval \<Rightarrow> string" where
  "py_str en v =
     (case v of
        YStr s \<Rightarrow> s
      | YInt i \<Rightarrow> str_int i
      | YBool b \<Rightarrow> (if b then ''True'' else ''False'')
      | YNull \<Rightarrow> ''None''
      | _ \<Rightarrow> py_repr en v)"

definition endswith :: "string \<Rightarrow> string \<Rightarrow> bool" where
  "endswith s suf = (length suf \<le> length s \<and> drop (length s - length suf) s = suf)"

text \<open>\<^verbatim>\<open>not f\<close> for \<^verbatim>\<open>f\<close> a string or \<^verbatim>\<open>None\<close>.\<close>

definition falsy :: "string option \<Rightarrow> bool" where
  "falsy f = (case f of None \<Rightarrow> True | Some s \<Rightarrow> s = [])"

text \<open>\<^verbatim>\<open>d[k]\<close> and \<^verbatim>\<open>d[k] = v\<close> with a string key: only a dictionary accepts them.\<close>

definition getitem :: "yval \<Rightarrow> yval \<Rightarrow> yval io" where
  "getitem d k =
     (case d of
        YMap kvs \<Rightarrow> (case map_of kvs k of None \<Rightarrow> io_raise (KeyError k) | Some v \<Rightarrow> io_return v)
      | _ \<Rightarrow> io_raise TypeError)"

definition setitem :: "yval \<Rightarrow> yval \<Rightarrow> yval \<Rightarrow> yval io" where
  "setitem d k v =
     (case d of
        YMap kvs \<Rightarrow> io_return (YMap (AList.update k v kvs))
      | _ \<Rightarrow> io_raise TypeError)"

text \<open>What a \<^verbatim>\<open>for\<close> loop iterates over: the elements of a list, the keys of a
  dictionary, the characters of a string; anything else is not iterable.\<close>

definition py_iter :: "yval \<Rightarrow> yval list io" where
  "py_iter v =
     (case v of
        YSeq xs \<Rightarrow> io_return xs
      | YMap kvs \<Rightarrow> io_return (map fst kvs)
      | YStr s \<Rightarrow> io_return (map (\<lambda>c. YStr [c]) s)
      | _ \<Rightarrow> io_raise TypeError)"

subsection \<open>Paths\<close>

definition os_path_join :: "string \<Rightarrow> string \<Rightarrow> string" where
  "os_path_join a b =
     (if b \<noteq> [] \<and> hd b = CHR ''/'' then b
      else if a = [] \<or> last a = CHR ''/'' then a @ b
      else a @ ''/'' @ b)"

definition basename :: "string \<Rightarrow> string" where
  "basename p = rev (takeWhile (\<lambda>c. c \<noteq> CHR ''/'') (rev p))"

definition dirname :: "string \<Rightarrow> string" where
  "dirname p =
     (let h = rev (dropWhile (\<lambda>c. c \<noteq> CHR ''/'') (rev p))
      in if list_all (\<lambda>c. c = CHR ''/'') h then h
         else rev (dropWhile (\<lambda>c. c = CHR ''/'') (rev h)))"

text \<open>\<^verbatim>\<open>os.path.splitext(name)[0]\<close> for a name without separators: the extension starts
  at the last dot, unless only dots precede it.\<close>

definition splitext_root :: "string \<Rightarrow> string" where
  "splitext_root s =
     (if CHR ''.'' \<in> set s
      then (let r = rev (tl (dropWhile (\<lambda>c. c \<noteq> CHR ''.'') (rev s)))
            in if list_ex (\<lambda>c. c \<noteq> CHR ''.'') r then r else s)
      else s)"

text \<open>\<open>under d p\<close>: the path \<open>p\<close> is \<open>d\<close> or lies below it.\<close>

definition under :: "string \<Rightarrow> string \<Rightarrow> bool" where
  "under d p = (p = d \<or> prefix (d @ ''/'') p)"

definition is_child :: "string \<Rightarrow> string \<Rightarrow> bool" where
  "is_child d p =
     (prefix (d @ ''/'') p \<and>
      drop (length d + 1) p \<noteq> [] \<and> CHR ''/'' \<notin> set (drop (length d + 1) p))"

definition children :: "string \<Rightarrow> filesys \<Rightarrow> string list" where
  "children d fs = map (\<lambda>(p, n). drop (length d + 1) p) (filter (\<lambda>(p, n). is_child d p) fs)"

fun ancestors_from :: "string \<Rightarrow> string \<Rightarrow> string list" where
  "ancestors_from acc [] = []"
| "ancestors_from acc (c # cs) =
     (if c = CHR ''/'' \<and> acc \<noteq> [] then [acc] else []) @ ancestors_from (acc @ [c]) cs"

definition ancestors :: "string \<Rightarrow> string list" where
  "ancestors p = ancestors_from [] p"

definition parent_ok :: "filesys \<Rightarrow> string \<Rightarrow> bool" where
  "parent_ok fs p = (dirname p = [] \<or> map_of fs (dirname p) = Some Dir)"

subsection \<open>File-system calls\<close>

definition os_path_exists :: "string \<Rightarrow> world \<Rightarrow> bool" where
  "os_path_exists p w = (map_of (files w) p \<noteq> None)"

definition os_listdir :: "string \<Rightarrow> string list io" where
  "os_listdir d w =
     (case map_of (files w) d of
        None \<Rightarrow> io_raise (FileNotFoundError d) w
      | Some (File c) \<Rightarrow> io_raise (NotADirectoryError d) w
      | Some Dir \<Rightarrow> io_return (children d (files w)) w)"

definition open_read :: "string \<Rightarrow> string io" where
  "open_read p w =
     (case map_of (files w) p of
        None \<Rightarrow> io_raise (FileNotFoundError p) w
      | Some Dir \<Rightarrow> io_raise (IsADirectoryError p) w
      | Some (File c) \<Rightarrow> io_return c w)"

text \<open>\<^verbatim>\<open>with open(p, 'w') as f: f.write(c)\<close>\<close>

definition open_write :: "string \<Rightarrow> string \<Rightarrow> unit io" where
  "open_write p c =
     io_bind (emit (WriteFile p c)) (\<lambda>_ w.
       if map_of (files w) p = Some Dir then io_raise (IsADirectoryError p) w
       else if \<not> parent_ok (files w) p then io_raise (FileNotFoundError p) w
       else set_files (AList.update p (File c) (files w)) w)"

definition shutil_rmtree :: "string \<Rightarrow> unit io" where
  "shutil_rmtree p =
     io_bind (emit (Rmtree p)) (\<lambda>_ w.
       case map_of (files w) p of
         None \<Rightarrow> io_raise (FileNotFoundError p) w
       | Some (File c) \<Rightarrow> io_raise (NotADirectoryError p) w
       | Some Dir \<Rightarrow> set_files (filter (\<lambda>(q, n). \<not> under p q) (files w)) w)"

text \<open>Creating a directory and its missing ancestors. An ancestor that is a regular file
  makes the call fail; the error carries the requested path.\<close>

definition add_dir :: "string \<Rightarrow> filesys \<Rightarrow> filesys" where
  "add_dir p fs = (if map_of fs p = None then fs @ [(p, Dir)] else fs)"

definition is_file :: "filesys \<Rightarrow> string \<Rightarrow> bool" where
  "is_file fs p = (case map_of fs p of Some (File c) \<Rightarrow> True | _ \<Rightarrow> False)"

definition mkdirs :: "string \<Rightarrow> filesys \<Rightarrow> pyerr + filesys" where
  "mkdirs p fs =
     (if map_of fs p \<noteq> None then Inl (FileExistsError p)
      else (case filter (is_file fs) (ancestors p) of
              a # _ \<Rightarrow> Inl (NotADirectoryError p)
            | [] \<Rightarrow> Inr (fold add_dir (ancestors p) fs @ [(p, Dir)])))"

definition os_makedirs :: "string \<Rightarrow> unit io" where
  "os_makedirs p =
     io_bind (emit (Makedirs p)) (\<lambda>_ w.
       case mkdirs p (files w) of
         Inl e \<Rightarrow> io_raise e w
       | Inr fs \<Rightarrow> set_files fs w)"

text \<open>Renaming \<open>src\<close> and everything below it to \<open>dst\<close>.\<close>

definition rename_tree :: "string \<Rightarrow> string \<Rightarrow> filesys \<Rightarrow> filesys" where
  "rename_tree src dst fs =
     map (\<lambda>(q, n). if under src q then (dst @ drop (length src) q, n) else (q, n))
       (filter (\<lambda>(q, n). under src q \<or> \<not> under dst q) fs)"

text \<open>\<^verbatim>\<open>shutil.move(src, dst)\<close>: a destination that is a directory receives the source
  under its own base name; otherwise the source is renamed, replacing a file that is
  already there.\<close>

definition shutil_move :: "string \<Rightarrow> string \<Rightarrow> unit io" where
  "shutil_move src dst =
     io_bind (emit (Move src dst)) (\<lambda>_ w.
       let fs = files w;
           real_dst = (if map_of fs dst = Some Dir \<and> src \<noteq> dst
                       then os_path_join dst (basename src) else dst)
       in if real_dst \<noteq> dst \<and> map_of fs real_dst \<noteq> None then io_raise (ShutilError real_dst) w
          else (case map_of fs src of
                  None \<Rightarrow> io_raise (FileNotFoundError src) w
                | Some n \<Rightarrow>
                    if src = real_dst then io_return () w
                    else if \<not> parent_ok fs real_dst then io_raise (FileNotFoundError real_dst) w
                    else if n = Dir \<and> map_of fs real_dst \<noteq> None
                      then io_raise (FileExistsError real_dst) w
                    else set_files (rename_tree src real_dst fs) w))"

definition shutil_copytree :: "string \<Rightarrow> string \<Rightarrow> unit io" where
  "shutil_copytree src dst =
     io_bind (emit (Copytree src dst)) (\<lambda>_ w.
       case map_of (files w) src of
         None \<Rightarrow> io_raise (FileNotFoundError src) w
       | Some (File c) \<Rightarrow> io_raise (NotADirectoryError src) w
       | Some Dir \<Rightarrow>
           (case mkdirs dst (files w) of
              Inl e \<Rightarrow> io_raise e w
            | Inr fs \<Rightarrow>
                set_files
                  (fs @ map (\<lambda>(q, n). (dst @ drop (length src) q, n))
                          (filter (\<lambda>(q, n). prefix (src @ ''/'') q) (files w))) w))"

text \<open>\<^verbatim>\<open>subprocess.run(argv, check=True, capture_output=True, text=True)\<close>: the process
  runs to its end; its captured output is decoded, standard output first, and bytes that
  cannot be decoded raise \<^verbatim>\<open>UnicodeDecodeError\<close>; only then is the exit status checked.\<close>

definition subprocess_run :: "env \<Rightarrow> string list \<Rightarrow> unit io" where
  "subprocess_run en argv =
     io_bind (emit (Exec argv)) (\<lambda>_ w.
       case latexmk en w argv of
         None \<Rightarrow> io_raise (FileNotFoundError (hd argv)) w
       | Some p \<Rightarrow>
           io_bind (set_files (files_after p)) (\<lambda>_.
             case decode en (proc_stdout p) of
               None \<Rightarrow> io_raise UnicodeDecodeError
             | Some out \<Rightarrow>
                 (case decode en (proc_stderr p) of
                    None \<Rightarrow> io_raise UnicodeDecodeError
                  | Some err \<Rightarrow>
                      if returncode p \<noteq> 0
                      then io_raise (CalledProcessError (returncode p) argv out err)
                      else io_return ())) w)"

text \<open>\<^verbatim>\<open>env.get_template(name).render(release=..., content_list=..., item=...)\<close>\<close>

definition render_template ::
  "env \<Rightarrow> string \<Rightarrow> yval \<Rightarrow> content list \<Rightarrow> content option \<Rightarrow> string io" where
  "render_template en name release content_list item =
     io_bind (emit (Render name release content_list item)) (\<lambda>_ w.
       io_lift (jinja_render en (files w) name release content_list item) w)"

section \<open>The script\<close>

definition CONFIG_FILE :: string where "CONFIG_FILE = ''release-config.yml''"
definition SUBMISSIONS_DIR :: string where "SUBMISSIONS_DIR = ''submissions''"
definition TEMPLATES_DIR :: string where "TEMPLATES_DIR = ''templates''"
definition OUTPUT_DIR :: string where "OUTPUT_DIR = ''output''"
definition ASSETS_DIR :: string where "ASSETS_DIR = ''assets''"

text \<open>\<^verbatim>\<open>run_pdflatex\<close>, lines 14-33: one \<^verbatim>\<open>subprocess.run\<close> of \<^verbatim>\<open>latexmk -pdf\<close>; a
  \<^verbatim>\<open>CalledProcessError\<close> is caught, three lines are printed, and it is raised again. Any
  other exception passes through.\<close>

definition run_pdflatex :: "env \<Rightarrow> string \<Rightarrow> string \<Rightarrow> unit io" where
  "run_pdflatex en tex_file_path output_dir w =
     (case subprocess_run en
             [''latexmk'', ''-pdf'', ''-output-directory='' @ output_dir, tex_file_path] w of
        (Inr u, w1) \<Rightarrow> (Inr u, w1)
      | (Inl e, w1) \<Rightarrow>
          (case e of
             CalledProcessError rc cmd out err \<Rightarrow>
               io_bind (print (''Error compiling '' @ tex_file_path @ ''.'')) (\<lambda>_.
               io_bind (print out) (\<lambda>_.
               io_bind (print err) (\<lambda>_.
               io_raise e))) w1
           | _ \<Rightarrow> (Inl e, w1)))"

text \<open>Step 1, lines 40-41.\<close>

definition load_config :: "env \<Rightarrow> yval io" where
  "load_config en =
     io_bind (open_read CONFIG_FILE) (\<lambda>raw.
     io_lift (safe_load en raw))"

text \<open>Step 2, lines 44-46.\<close>

definition setup_output :: "unit io" where
  "setup_output =
     io_bind (\<lambda>w. if os_path_exists OUTPUT_DIR w then shutil_rmtree OUTPUT_DIR w
                   else io_return () w) (\<lambda>_.
     os_makedirs OUTPUT_DIR)"

text \<open>The body of the loop of step 3, lines 52-72, for one identifier: the content list so
  far goes in, the content list after this identifier comes out. The \<^verbatim>\<open>continue\<close> of
  line 60 returns the list as it was.\<close>

definition load_item :: "env \<Rightarrow> yval \<Rightarrow> content list \<Rightarrow> content list io" where
  "load_item en item_id release_content =
     (let item_dir = os_path_join SUBMISSIONS_DIR (py_str en item_id) in
      io_bind (os_listdir item_dir) (\<lambda>listing1.
      io_bind (os_listdir item_dir) (\<lambda>listing2.
      let metadata_file = find (\<lambda>f. endswith f ''.yml'') listing1;
          tex_file = find (\<lambda>f. endswith f ''.tex'') listing2
      in if falsy metadata_file \<or> falsy tex_file
         then io_bind (print (''Warning: Missing files in submission directory '' @ sq
                                @ py_str en item_id @ sq @ ''. Skipping.'')) (\<lambda>_.
              io_return release_content)
         else
           io_bind (open_read (os_path_join item_dir (case_option [] id metadata_file))) (\<lambda>raw.
           io_bind (io_lift (safe_load en raw)) (\<lambda>loaded.
           io_bind (setitem loaded (YStr ''id'') item_id) (\<lambda>with_id.
           io_bind (getitem with_id (YStr ''permalink'')) (\<lambda>permalink.
           io_bind (setitem with_id (YStr ''pdf_link'') (YStr (py_str en permalink @ ''.pdf'')))
             (\<lambda>md.
           let content_data =
                 \<lparr>metadata = md,
                  tex_path = os_path_join item_dir (case_option [] id tex_file)\<rparr>
           in
           io_bind (getitem md (YStr ''title'')) (\<lambda>title.
           io_bind (print (''  - Loaded '' @ sq @ py_str en title @ sq)) (\<lambda>_.
           io_return (release_content @ [content_data])))))))))))"

primrec load_loop :: "env \<Rightarrow> yval list \<Rightarrow> content list \<Rightarrow> content list io" where
  "load_loop en [] release_content = io_return release_content"
| "load_loop en (item_id # ids) release_content =
     io_bind (load_item en item_id release_content) (\<lambda>rc. load_loop en ids rc)"

text \<open>Step 3, lines 49-72.\<close>

definition load_content :: "env \<Rightarrow> yval \<Rightarrow> content list io" where
  "load_content en config =
     io_bind (print ''Loading content and metadata...'') (\<lambda>_.
     io_bind (getitem config (YStr ''content_ids'')) (\<lambda>ids_value.
     io_bind (py_iter ids_value) (\<lambda>ids.
     load_loop en ids [])))"

text \<open>The body of the loop of step 4, lines 79-96, for one item.\<close>

definition build_item :: "env \<Rightarrow> yval \<Rightarrow> content list \<Rightarrow> content \<Rightarrow> unit io" where
  "build_item en config release_content item =
     io_bind (getitem (metadata item) (YStr ''permalink'')) (\<lambda>p1.
     io_bind (print (''  - Compiling '' @ py_str en p1 @ ''.pdf...'')) (\<lambda>_.
     io_bind (run_pdflatex en (tex_path item) OUTPUT_DIR) (\<lambda>_.
     let base_name = splitext_root (basename (tex_path item)) in
     io_bind (getitem (metadata item) (YStr ''permalink'')) (\<lambda>p2.
     io_bind (shutil_move (os_path_join OUTPUT_DIR (base_name @ ''.pdf''))
                          (os_path_join OUTPUT_DIR (py_str en p2 @ ''.pdf''))) (\<lambda>_.
     io_bind (print (nl @ ''Building metadata page...'')) (\<lambda>_.
     io_bind (render_template en ''paper.html.j2'' config release_content (Some item))
       (\<lambda>web_html_content.
     io_bind (getitem (metadata item) (YStr ''permalink'')) (\<lambda>p3.
     open_write (os_path_join OUTPUT_DIR (py_str en p3 @ ''.html'')) web_html_content))))))))"

primrec build_loop :: "env \<Rightarrow> yval \<Rightarrow> content list \<Rightarrow> content list \<Rightarrow> unit io" where
  "build_loop en config release_content [] = io_return ()"
| "build_loop en config release_content (item # items) =
     io_bind (build_item en config release_content item) (\<lambda>_.
     build_loop en config release_content items)"

text \<open>Step 4, lines 77-96.\<close>

definition build_pdfs :: "env \<Rightarrow> yval \<Rightarrow> content list \<Rightarrow> unit io" where
  "build_pdfs en config release_content =
     io_bind (print (nl @ ''Building individual PDFs...'')) (\<lambda>_.
     build_loop en config release_content release_content)"

text \<open>Step 5, lines 100-117: one \<^verbatim>\<open>print\<close>; the rest is a string literal.\<close>

definition build_master :: "unit io" where
  "build_master = print (nl @ ''Building master release volume PDF...'')"

text \<open>Step 6 up to the index page, lines 120-127.\<close>

definition build_website :: "env \<Rightarrow> yval \<Rightarrow> content list \<Rightarrow> unit io" where
  "build_website en config release_content =
     io_bind (print (nl @ ''Building static website...'')) (\<lambda>_.
     io_bind (render_template en ''release.html.j2'' config release_content None)
       (\<lambda>web_html_content.
     open_write (os_path_join OUTPUT_DIR ''index.html'') web_html_content))"

text \<open>Lines 130-131.\<close>

definition copy_assets :: "unit io" where
  "copy_assets w =
     (if os_path_exists ASSETS_DIR w
      then shutil_copytree ASSETS_DIR (os_path_join OUTPUT_DIR ASSETS_DIR) w
      else io_return () w)"

text \<open>The bytes the source file has between the line break and \<^verbatim>\<open>ARA\<close> in the string of
  line 134.\<close>

definition party :: string where
  "party = [CHR 0xC3, CHR 0xB0, CHR 0xC5, CHR 0xB8, CHR 0xC5, CHR 0xBD, CHR 0xE2, CHR 0x80,
            CHR 0xB0]"

text \<open>\<^verbatim>\<open>main\<close>, lines 35-134.\<close>

definition main :: "env \<Rightarrow> unit io" where
  "main en =
     io_bind (print ''--- Starting ARA Release Build Process ---'') (\<lambda>_.
     io_bind (load_config en) (\<lambda>config.
     io_bind setup_output (\<lambda>_.
     io_bind (load_content en config) (\<lambda>release_content.
     io_bind (build_pdfs en config release_content) (\<lambda>_.
     io_bind build_master (\<lambda>_.
     io_bind (build_website en config release_content) (\<lambda>_.
     io_bind copy_assets (\<lambda>_.
     io_bind (print ''  - Website created successfully.'') (\<lambda>_.
     print (nl @ party @ '' ARA Release Build Complete! Artifacts are in the '' @ sq
              @ ''output'' @ sq @ '' directory.''))))))))))"

section \<open>Notions used by the properties\<close>

text \<open>The argument vector of line 18-24.\<close>

definition compile_argv :: "string \<Rightarrow> string \<Rightarrow> string list" where
  "compile_argv output_dir tex_file_path =
     [''latexmk'', ''-pdf'', ''-output-directory='' @ output_dir, tex_file_path]"

definition is_exec :: "event \<Rightarrow> bool" where
  "is_exec e = (case e of Exec a \<Rightarrow> True | _ \<Rightarrow> False)"

text \<open>\<^verbatim>\<open>main\<close> up to the end of step 2, and from step 5 on.\<close>

definition startup :: "env \<Rightarrow> yval io" where
  "startup en =
     io_bind (print ''--- Starting ARA Release Build Process ---'') (\<lambda>_.
     io_bind (load_config en) (\<lambda>config.
     io_bind setup_output (\<lambda>_.
     io_return config)))"

definition finish :: "env \<Rightarrow> yval \<Rightarrow> content list \<Rightarrow> unit io" where
  "finish en config release_content =
     io_bind build_master (\<lambda>_.
     io_bind (build_website en config release_content) (\<lambda>_.
     io_bind copy_assets (\<lambda>_.
     io_bind (print ''  - Website created successfully.'') (\<lambda>_.
     print (nl @ party @ '' ARA Release Build Complete! Artifacts are in the '' @ sq
              @ ''output'' @ sq @ '' directory.'')))))"

text \<open>The directory of an identifier, line 52.\<close>

definition item_dir_of :: "env \<Rightarrow> yval \<Rightarrow> string" where
  "item_dir_of en item_id = os_path_join SUBMISSIONS_DIR (py_str en item_id)"

text \<open>The two scans of lines 55-56, the warning of line 59, and the dictionary after
  lines 64-65.\<close>

definition yml_of :: "string list \<Rightarrow> string option" where
  "yml_of listing = find (\<lambda>f. endswith f ''.yml'') listing"

definition tex_of :: "string list \<Rightarrow> string option" where
  "tex_of listing = find (\<lambda>f. endswith f ''.tex'') listing"

definition warning_line :: "env \<Rightarrow> yval \<Rightarrow> string" where
  "warning_line en item_id =
     ''Warning: Missing files in submission directory '' @ sq @ py_str en item_id @ sq
       @ ''. Skipping.''"

definition enriched :: "env \<Rightarrow> yval \<Rightarrow> (yval \<times> yval) list \<Rightarrow> yval \<Rightarrow> yval" where
  "enriched en item_id kvs permalink =
     YMap (AList.update (YStr ''pdf_link'') (YStr (py_str en permalink @ ''.pdf''))
            (AList.update (YStr ''id'') item_id kvs))"

text \<open>The condition of line 58 on an identifier, and the identifier an item carries.\<close>

definition skipped :: "env \<Rightarrow> filesys \<Rightarrow> yval \<Rightarrow> bool" where
  "skipped en fs item_id =
     (let listing = children (item_dir_of en item_id) fs
      in falsy (yml_of listing) \<or> falsy (tex_of listing))"

definition content_id :: "content \<Rightarrow> yval option" where
  "content_id c = (case metadata c of YMap kvs \<Rightarrow> map_of kvs (YStr ''id'') | _ \<Rightarrow> None)"

text \<open>\<open>emits_only P m\<close>: whatever the statement \<open>m\<close> does, it only appends events to the
  trace, and each of them satisfies \<open>P\<close>.\<close>

definition emits_only :: "(event \<Rightarrow> bool) \<Rightarrow> 'a io \<Rightarrow> bool" where
  "emits_only P m = (\<forall>w. \<exists>es. trace (snd (m w)) = trace w @ es \<and> list_all P es)"

text \<open>A template rendering that receives the manifest \<open>config\<close>, the content list \<open>rc\<close>
  and, as its item, nothing or an item of \<open>rc\<close>.\<close>

definition renders_with :: "yval \<Rightarrow> content list \<Rightarrow> event \<Rightarrow> bool" where
  "renders_with config rc e =
     (case e of
        Render name release content_list item \<Rightarrow>
          release = config \<and> content_list = rc \<and>
          (case item of None \<Rightarrow> True | Some c \<Rightarrow> c \<in> set rc)
      | _ \<Rightarrow> True)"

text \<open>\<open>metadata_text en fs item_id raw\<close>: \<open>raw\<close> is the text of the metadata file the loader
  picks for \<open>item_id\<close>. \<open>enriched_from en fs c\<close>: the dictionary of the item \<open>c\<close> is what
  such a text parses to, with \<^verbatim>\<open>id\<close> set to the identifier, \<^verbatim>\<open>pdf_link\<close> set to the
  permalink followed by \<^verbatim>\<open>.pdf\<close>, and every other key as parsed.\<close>

definition metadata_text :: "env \<Rightarrow> filesys \<Rightarrow> yval \<Rightarrow> string \<Rightarrow> bool" where
  "metadata_text en fs item_id raw =
     (case yml_of (children (item_dir_of en item_id) fs) of
        None \<Rightarrow> False
      | Some mf \<Rightarrow> map_of fs (os_path_join (item_dir_of en item_id) mf) = Some (File raw))"

definition enriched_from :: "env \<Rightarrow> filesys \<Rightarrow> content \<Rightarrow> bool" where
  "enriched_from en fs c =
     (\<exists>item_id raw kvs p kvs'.
        metadata_text en fs item_id raw \<and> safe_load en raw = Inr (YMap kvs) \<and>
        map_of kvs (YStr ''permalink'') = Some p \<and>
        metadata c = YMap kvs' \<and>
        (\<forall>k. map_of kvs' k =
               (if k = YStr ''id'' then Some item_id
                else if k = YStr ''pdf_link'' then Some (YStr (py_str en p @ ''.pdf''))
                else map_of kvs k)))"

text \<open>The entries a recursive copy of \<open>src\<close> to \<open>dst\<close> adds for what lies below \<open>src\<close>.\<close>

definition copied :: "string \<Rightarrow> string \<Rightarrow> filesys \<Rightarrow> filesys" where
  "copied src dst fs =
     map (\<lambda>(q, n). (dst @ drop (length src) q, n)) (filter (\<lambda>(q, n). prefix (src @ ''/'') q) fs)"






text \<open>The path of a name in the output directory.\<close>

definition out_path :: "string \<Rightarrow> string" where
  "out_path n = OUTPUT_DIR @ ''/'' @ n"







subsection \<open>A small release\<close>

text \<open>Three identifiers: \<open>1\<close> and \<open>3\<close> are complete, the directory of \<open>2\<close> is empty.
  An output directory of an earlier run is still there; there is an assets directory.\<close>

definition ex_files :: filesys where
  "ex_files =
     [(''release-config.yml'', File ''cfg''),
      (''submissions'', Dir),
      (''submissions/1'', Dir),
      (''submissions/1/a.tex'', File ''tex1''),
      (''submissions/1/a.yml'', File ''meta1''),
      (''submissions/2'', Dir),
      (''submissions/3'', Dir),
      (''submissions/3/c.yml'', File ''meta3''),
      (''submissions/3/c.tex'', File ''tex3''),
      (''output'', Dir),
      (''output/stale.pdf'', File ''old''),
      (''assets'', Dir),
      (''assets/style.css'', File ''css'')]"

definition ex_world :: world where
  "ex_world = \<lparr>files = ex_files, trace = []\<rparr>"

definition ex_config :: yval where
  "ex_config = YMap [(YStr ''content_ids'', YSeq [YInt 1, YInt 2, YInt 3]),
                     (YStr ''release_volume'', YStr ''25.1'')]"

definition ex_meta1 :: "(yval \<times> yval) list" where
  "ex_meta1 = [(YStr ''title'', YStr ''Paper One''), (YStr ''permalink'', YStr ''paper-one''),
               (YStr ''author'', YStr ''A. Author'')]"

definition ex_meta3 :: "(yval \<times> yval) list" where
  "ex_meta3 = [(YStr ''permalink'', YStr ''paper-three''), (YStr ''title'', YStr ''Paper Three'')]"

definition ex_safe_load :: "string \<Rightarrow> pyerr + yval" where
  "ex_safe_load s =
     (if s = ''cfg'' then Inr ex_config
      else if s = ''meta1'' then Inr (YMap ex_meta1)
      else if s = ''meta3'' then Inr (YMap ex_meta3)
      else if s = ''meta0'' then Inr (YMap [(YStr ''title'', YStr ''No link'')])
      else Inl (YAMLError s))"

text \<open>A compiler that exits with status \<open>rc\<close>; with status 0 it leaves the PDF of the
  document and a log file, both named after the document, in the output directory. The
  decoder is that of an ASCII locale.\<close>

definition ex_latexmk :: "int \<Rightarrow> world \<Rightarrow> string list \<Rightarrow> proc option" where
  "ex_latexmk rc w argv =
     Some \<lparr>returncode = rc, proc_stdout = ''log'', proc_stderr = ''warn'',
           files_after =
             (if rc = 0
              then AList.update (''output/'' @ splitext_root (basename (last argv)) @ ''.pdf'')
                     (File ''%PDF'')
                     (AList.update
                        (''output/'' @ splitext_root (basename (last argv)) @ ''.log'')
                        (File ''This is pdfTeX'') (files w))
              else files w)\<rparr>"

definition ex_decode :: "string \<Rightarrow> string option" where
  "ex_decode s = (if list_all (\<lambda>c. of_char c < (128 :: nat)) s then Some s else None)"

definition ex_env :: "int \<Rightarrow> env" where
  "ex_env rc =
     \<lparr>safe_load = ex_safe_load,
      latexmk = ex_latexmk rc,
      jinja_render = (\<lambda>fs name release content_list item. Inr (''<html>'' @ name)),
      py_repr = (\<lambda>v. ''?''),
      decode = ex_decode\<rparr>"


text \<open>The two items the loader builds for this release.\<close>

definition ex_item1 :: content where
  "ex_item1 =
     \<lparr>metadata = YMap (ex_meta1 @ [(YStr ''id'', YInt 1), (YStr ''pdf_link'', YStr ''paper-one.pdf'')]),
      tex_path = ''submissions/1/a.tex''\<rparr>"

definition ex_item3 :: content where
  "ex_item3 =
     \<lparr>metadata = YMap (ex_meta3 @ [(YStr ''id'', YInt 3), (YStr ''pdf_link'', YStr ''paper-three.pdf'')]),
      tex_path = ''submissions/3/c.tex''\<rparr>"

text \<open>The worlds of a run on the small release after step 2 and after step 3.\<close>

definition ex_w1 :: world where
  "ex_w1 =
     \<lparr>files =
        [(''release-config.yml'', File ''cfg''), (''submissions'', Dir),
         (''submissions/1'', Dir), (''submissions/1/a.tex'', File ''tex1''),
         (''submissions/1/a.yml'', File ''meta1''), (''submissions/2'', Dir),
         (''submissions/3'', Dir), (''submissions/3/c.yml'', File ''meta3''),
         (''submissions/3/c.tex'', File ''tex3''), (''assets'', Dir),
         (''assets/style.css'', File ''css''), (''output'', Dir)],
      trace =
        [Print ''--- Starting ARA Release Build Process ---'',
         Rmtree ''output'', Makedirs ''output'']\<rparr>"

definition ex_w2 :: world where
  "ex_w2 =
     ex_w1\<lparr>trace := trace ex_w1 @
        [Print ''Loading content and metadata...'',
         Print (''  - Loaded '' @ sq @ ''Paper One'' @ sq),
         Print (''Warning: Missing files in submission directory '' @ sq @ ''2'' @ sq
                @ ''. Skipping.''),
         Print (''  - Loaded '' @ sq @ ''Paper Three'' @ sq)]\<rparr>"

text \<open>Two broken releases: one with the manifest alone, and one whose first submission
  has a metadata file without a \<^verbatim>\<open>permalink\<close>.\<close>

definition ex_bare :: world where
  "ex_bare = \<lparr>files = [(''release-config.yml'', File ''cfg'')], trace = []\<rparr>"

definition ex_nolink :: world where
  "ex_nolink =
     \<lparr>files =
        [(''release-config.yml'', File ''cfg''), (''submissions'', Dir),
         (''submissions/1'', Dir), (''submissions/1/a.tex'', File ''tex1''),
         (''submissions/1/a.yml'', File ''meta0'')],
      trace = []\<rparr>"




section \<open>Basic facts\<close>

lemmas io_defs =
  io_bind_def io_return_def io_raise_def io_lift_def emit_def print_def set_files_def

text \<open>The definitions that evaluate a run on the small release.\<close>

lemmas const_defs =
  CONFIG_FILE_def OUTPUT_DIR_def SUBMISSIONS_DIR_def ASSETS_DIR_def TEMPLATES_DIR_def sq_def nl_def

lemmas fs_defs =
  open_read_def open_write_def os_path_exists_def os_listdir_def shutil_rmtree_def
  os_makedirs_def mkdirs_def is_file_def ancestors_def add_dir_def under_def children_def
  is_child_def os_path_join_def parent_ok_def dirname_def basename_def splitext_root_def
  shutil_move_def rename_tree_def shutil_copytree_def subprocess_run_def render_template_def

lemmas py_defs =
  getitem_def setitem_def py_iter_def py_str_def str_int_def str_nat.simps digit_def
  endswith_def falsy_def

lemmas ex_defs =
  ex_env_def ex_world_def ex_files_def ex_safe_load_def ex_config_def ex_meta1_def
  ex_meta3_def ex_latexmk_def ex_item1_def ex_item3_def ex_w1_def ex_w2_def ex_bare_def ex_nolink_def
  ex_decode_def

lemmas script_defs =
  startup_def load_config_def setup_output_def load_content_def load_item_def
  build_pdfs_def build_item_def run_pdflatex_def build_master_def build_website_def
  copy_assets_def finish_def compile_argv_def item_dir_of_def yml_of_def tex_of_def
  warning_line_def enriched_def skipped_def content_id_def

lemmas eval_defs = io_defs const_defs fs_defs py_defs ex_defs script_defs Let_def

lemma io_bind_Inr: "m w = (Inr x, w') \<Longrightarrow> io_bind m f w = f x w'"
  by (simp add: io_bind_def)

lemma io_bind_Inl: "m w = (Inl e, w') \<Longrightarrow> io_bind m f w = (Inl e, w')"
  by (simp add: io_bind_def)

lemma io_bind_assoc: "io_bind (io_bind m f) g = io_bind m (\<lambda>x. io_bind (f x) g)"
  by (rule ext) (simp add: io_bind_def split: prod.splits sum.splits)

lemma io_bind_return: "io_bind (io_return x) f = f x"
  by (rule ext) (simp add: io_bind_def io_return_def)

lemma main_stages:
  "main en =
     io_bind (startup en) (\<lambda>config.
     io_bind (load_content en config) (\<lambda>release_content.
     io_bind (build_pdfs en config release_content) (\<lambda>_.
     finish en config release_content)))"
  by (simp add: main_def startup_def finish_def io_bind_assoc io_bind_return)


lemma load_loop_append:
  "load_loop en (xs @ ys) rc = io_bind (load_loop en xs rc) (load_loop en ys)"
  by (induction xs arbitrary: rc) (simp_all add: io_bind_return io_bind_assoc)

text \<open>The small release: the worlds a run goes through.\<close>

lemma ex_startup: "startup (ex_env rc) ex_world = (Inr ex_config, ex_w1)"
  by (simp add: eval_defs)

lemma ex_load_content:
  "load_content (ex_env rc) ex_config ex_w1 = (Inr [ex_item1, ex_item3], ex_w2)"
  by (simp add: eval_defs)

section \<open>The compiler invoker\<close>

text \<open>What \<^verbatim>\<open>run_pdflatex\<close> returns and leaves behind, by the outcome of the one process it
  starts.\<close>

lemma run_pdflatex_result:
  "run_pdflatex en tex out w =
     (let argv = compile_argv out tex; w1 = w\<lparr>trace := trace w @ [Exec argv]\<rparr>
      in case latexmk en w1 argv of
           None \<Rightarrow> (Inl (FileNotFoundError ''latexmk''), w1)
         | Some p \<Rightarrow>
             (case (decode en (proc_stdout p), decode en (proc_stderr p)) of
                (Some so, Some se) \<Rightarrow>
                  if returncode p = 0 then (Inr (), w1\<lparr>files := files_after p\<rparr>)
                  else (Inl (CalledProcessError (returncode p) argv so se),
                        \<lparr>files = files_after p,
                         trace = trace w @ [Exec argv, Print (''Error compiling '' @ tex @ ''.''),
                                            Print so, Print se]\<rparr>)
              | _ \<Rightarrow> (Inl UnicodeDecodeError, w1\<lparr>files := files_after p\<rparr>)))"
  by (simp add: run_pdflatex_def subprocess_run_def compile_argv_def io_defs Let_def
      split: option.splits)

text \<open>
  C1. The claim is that the compiler invoker starts the external compiler twice on the
  source file before the PDF is renamed, as the docstring of \<^verbatim>\<open>run_pdflatex\<close> says
  (``Runs pdflatex command twice''). The code starts one process: whatever the process does,
  \<^verbatim>\<open>run_pdflatex\<close> adds exactly one subprocess call to the trace, the \<^verbatim>\<open>latexmk -pdf\<close>
  call of lines 17-28.
\<close>

theorem run_pdflatex_single_invocation:
  "filter is_exec (trace (snd (run_pdflatex en tex_file_path output_dir w))) =
     filter is_exec (trace w) @ [Exec (compile_argv output_dir tex_file_path)]"
  by (simp add: run_pdflatex_result Let_def is_exec_def split: option.splits prod.splits)

theorem run_pdflatex_single_invocation_witness:
  "filter is_exec (trace (snd (run_pdflatex (ex_env 0) ''submissions/1/a.tex'' ''output''
       ex_world))) =
     [Exec [''latexmk'', ''-pdf'', ''-output-directory=output'', ''submissions/1/a.tex'']]"
  using run_pdflatex_single_invocation [of "ex_env 0" "''submissions/1/a.tex''" "''output''"
      ex_world]
  by (simp add: compile_argv_def ex_world_def)





section \<open>The content loader\<close>

text \<open>What one turn of the loop of step 3 returns, by what it finds.\<close>

lemma children_nonempty: "n \<in> set (children d fs) \<Longrightarrow> n \<noteq> []"
  by (auto simp: children_def is_child_def)

lemma falsy_find_children:
  "falsy (find P (children d fs)) = (find P (children d fs) = None)"
proof (cases "find P (children d fs)")
  case None
  then show ?thesis by (simp add: falsy_def)
next
  case (Some n)
  then have "n \<in> set (children d fs)"
    by (auto simp: find_Some_iff)
  then show ?thesis using Some by (simp add: falsy_def children_nonempty)
qed

lemma load_item_result:
  "load_item en i rc w =
     (let d = item_dir_of en i; listing = children d (files w) in
      case map_of (files w) d of
        None \<Rightarrow> (Inl (FileNotFoundError d), w)
      | Some (File c) \<Rightarrow> (Inl (NotADirectoryError d), w)
      | Some Dir \<Rightarrow>
          (case (yml_of listing, tex_of listing) of
             (Some mf, Some tf) \<Rightarrow>
               (case map_of (files w) (os_path_join d mf) of
                  None \<Rightarrow> (Inl (FileNotFoundError (os_path_join d mf)), w)
                | Some Dir \<Rightarrow> (Inl (IsADirectoryError (os_path_join d mf)), w)
                | Some (File raw) \<Rightarrow>
                    (case safe_load en raw of
                       Inl e \<Rightarrow> (Inl e, w)
                     | Inr (YMap kvs) \<Rightarrow>
                         (case map_of kvs (YStr ''permalink'') of
                            None \<Rightarrow> (Inl (KeyError (YStr ''permalink'')), w)
                          | Some p \<Rightarrow>
                              (case map_of kvs (YStr ''title'') of
                                 None \<Rightarrow> (Inl (KeyError (YStr ''title'')), w)
                               | Some t \<Rightarrow>
                                   (Inr (rc @ [\<lparr>metadata = enriched en i kvs p,
                                                tex_path = os_path_join d tf\<rparr>]),
                                    w\<lparr>trace := trace w @
                                        [Print (''  - Loaded '' @ sq @ py_str en t @ sq)]\<rparr>)))
                     | Inr _ \<Rightarrow> (Inl TypeError, w)))
           | _ \<Rightarrow> (Inr rc, w\<lparr>trace := trace w @ [Print (warning_line en i)]\<rparr>)))"
  by (simp add: load_item_def item_dir_of_def yml_of_def tex_of_def warning_line_def
      enriched_def os_listdir_def open_read_def getitem_def setitem_def io_defs Let_def
      falsy_find_children update_conv'
      split: option.splits node.splits sum.splits yval.splits)


lemma skipped_iff:
  "skipped en fs i =
     (yml_of (children (item_dir_of en i) fs) = None \<or>
      tex_of (children (item_dir_of en i) fs) = None)"
  by (simp add: skipped_def Let_def yml_of_def tex_of_def falsy_find_children)

lemma load_loop_raises:
  assumes "load_loop en pre acc w = (Inr rc, w2)" and "load_item en i rc w2 = (Inl e, w3)"
  shows "load_loop en (pre @ i # post) acc w = (Inl e, w3)"
  using assms by (simp add: load_loop_append io_bind_def)

lemma load_content_seq:
  assumes "config = YMap ckvs" and "map_of ckvs (YStr ''content_ids'') = Some (YSeq ids)"
  shows "load_content en config w =
           load_loop en ids [] (w\<lparr>trace := trace w @ [Print ''Loading content and metadata...'']\<rparr>)"
  using assms by (simp add: load_content_def getitem_def py_iter_def io_defs)

lemma main_load_raises:
  assumes "startup en w0 = (Inr config, w1)" and "load_content en config w1 = (Inl e, w2)"
  shows "main en w0 = (Inl e, w2)"
  using assms by (simp add: main_stages io_bind_def)

text \<open>
  C3. The directory of an identifier exists, and its listing has no name ending in
  \<^verbatim>\<open>.yml\<close> or no name ending in \<^verbatim>\<open>.tex\<close>. Then the turn of the loop raises nothing: it
  prints the warning of line 59 and leaves the content list as it was, and the loop goes on
  with the next identifier.
\<close>

theorem incomplete_submission_skipped:
  assumes "map_of (files w) (item_dir_of en i) = Some Dir"
    and "(\<forall>f \<in> set (children (item_dir_of en i) (files w)). \<not> endswith f ''.yml'') \<or>
         (\<forall>f \<in> set (children (item_dir_of en i) (files w)). \<not> endswith f ''.tex'')"
  shows "load_item en i rc w = (Inr rc, w\<lparr>trace := trace w @ [Print (warning_line en i)]\<rparr>) \<and>
         load_loop en (i # ids) rc w =
           load_loop en ids rc (w\<lparr>trace := trace w @ [Print (warning_line en i)]\<rparr>)"
proof -
  have "yml_of (children (item_dir_of en i) (files w)) = None \<or>
        tex_of (children (item_dir_of en i) (files w)) = None"
    using assms(2) by (auto simp: yml_of_def tex_of_def find_None_iff)
  then have "load_item en i rc w =
      (Inr rc, w\<lparr>trace := trace w @ [Print (warning_line en i)]\<rparr>)"
    using assms(1) by (auto simp: load_item_result Let_def split: option.splits)
  then show ?thesis by (simp add: io_bind_def)
qed

theorem incomplete_submission_skipped_witness:
  "load_item (ex_env 0) (YInt 2) [ex_item1] ex_w1 =
     (Inr [ex_item1],
      ex_w1\<lparr>trace := trace ex_w1 @
         [Print (''Warning: Missing files in submission directory '' @ sq @ ''2'' @ sq
                 @ ''. Skipping.'')]\<rparr>) \<and>
   load_loop (ex_env 0) [YInt 2, YInt 3] [ex_item1] ex_w1 =
     load_loop (ex_env 0) [YInt 3] [ex_item1]
       (ex_w1\<lparr>trace := trace ex_w1 @
         [Print (''Warning: Missing files in submission directory '' @ sq @ ''2'' @ sq
                 @ ''. Skipping.'')]\<rparr>)"
proof -
  have d: "item_dir_of (ex_env 0) (YInt 2) = ''submissions/2''"
    by (simp add: item_dir_of_def const_defs py_defs os_path_join_def)
  have h1: "map_of (files ex_w1) (item_dir_of (ex_env 0) (YInt 2)) = Some Dir"
    unfolding d by (simp add: ex_w1_def)
  have h2: "(\<forall>f \<in> set (children (item_dir_of (ex_env 0) (YInt 2)) (files ex_w1)).
               \<not> endswith f ''.yml'') \<or>
            (\<forall>f \<in> set (children (item_dir_of (ex_env 0) (YInt 2)) (files ex_w1)).
               \<not> endswith f ''.tex'')"
    unfolding d by (simp add: ex_w1_def children_def is_child_def)
  have w: "warning_line (ex_env 0) (YInt 2) =
      ''Warning: Missing files in submission directory '' @ sq @ ''2'' @ sq @ ''. Skipping.''"
    by (simp add: warning_line_def py_defs)
  show ?thesis
    using incomplete_submission_skipped [OF h1 h2, of "[ex_item1]" "[YInt 3]"]
    unfolding w by simp
qed

text \<open>
  C9. The loader has come to the identifier \<open>i\<close>, and no node is stored under its
  directory. Then \<^verbatim>\<open>main\<close> ends there with the \<^verbatim>\<open>FileNotFoundError\<close> of
  \<^verbatim>\<open>os.listdir\<close>, having printed no warning; and a turn of the loop that does not raise
  (a skip with a warning or a load) only happens when the directory exists.
\<close>

theorem missing_directory_aborts_run:
  assumes "startup en w0 = (Inr (YMap ckvs), w1)"
    and "map_of ckvs (YStr ''content_ids'') = Some (YSeq (pre @ i # post))"
    and "load_loop en pre [] (w1\<lparr>trace := trace w1 @ [Print ''Loading content and metadata...'']\<rparr>)
           = (Inr rc, w2)"
    and "map_of (files w2) (item_dir_of en i) = None"
  shows "main en w0 = (Inl (FileNotFoundError (item_dir_of en i)), w2) \<and>
         (\<forall>rc0 rc' w w'. load_item en i rc0 w = (Inr rc', w') \<longrightarrow>
            map_of (files w) (item_dir_of en i) = Some Dir)"
proof -
  have "load_item en i rc w2 = (Inl (FileNotFoundError (item_dir_of en i)), w2)"
    using assms(4) by (simp add: load_item_result Let_def)
  then have "load_content en (YMap ckvs) w1 = (Inl (FileNotFoundError (item_dir_of en i)), w2)"
    using assms(2,3) by (simp add: load_content_seq [OF refl assms(2)] load_loop_raises)
  then have "main en w0 = (Inl (FileNotFoundError (item_dir_of en i)), w2)"
    using assms(1) by (rule main_load_raises [rotated])
  moreover have "map_of (files w) (item_dir_of en i) = Some Dir"
    if "load_item en i rc0 w = (Inr rc', w')" for rc0 rc' w w'
    using that by (simp add: load_item_result Let_def split: option.splits node.splits)
  ultimately show ?thesis by blast
qed

theorem missing_directory_aborts_run_witness:
  "main (ex_env 0) ex_bare =
     (Inl (FileNotFoundError ''submissions/1''),
      \<lparr>files = [(''release-config.yml'', File ''cfg''), (''output'', Dir)],
       trace = [Print ''--- Starting ARA Release Build Process ---'', Makedirs ''output'',
                Print ''Loading content and metadata...'']\<rparr>)"
proof -
  let ?w1 = "\<lparr>files = [(''release-config.yml'', File ''cfg''), (''output'', Dir)],
              trace = [Print ''--- Starting ARA Release Build Process ---'',
                       Makedirs ''output'']\<rparr>"
  let ?w2 = "?w1\<lparr>trace := trace ?w1 @ [Print ''Loading content and metadata...'']\<rparr>"
  have d: "item_dir_of (ex_env 0) (YInt 1) = ''submissions/1''"
    by (simp add: item_dir_of_def const_defs py_defs os_path_join_def)
  have h1: "startup (ex_env 0) ex_bare =
      (Inr (YMap [(YStr ''content_ids'', YSeq [YInt 1, YInt 2, YInt 3]),
                  (YStr ''release_volume'', YStr ''25.1'')]), ?w1)"
    by (simp add: eval_defs)
  have h2: "map_of [(YStr ''content_ids'', YSeq [YInt 1, YInt 2, YInt 3]),
                    (YStr ''release_volume'', YStr ''25.1'')] (YStr ''content_ids'') =
      Some (YSeq ([] @ YInt 1 # [YInt 2, YInt 3]))"
    by simp
  have h3: "load_loop (ex_env 0) [] [] ?w2 = (Inr [], ?w2)"
    by (simp add: io_return_def)
  have h4: "map_of (files ?w2) (item_dir_of (ex_env 0) (YInt 1)) = None"
    unfolding d by simp
  show ?thesis
    using missing_directory_aborts_run [OF h1 h2 h3 h4] unfolding d by simp
qed

text \<open>
  C10. The loader has come to the identifier \<open>i\<close>; its directory has a metadata file and
  a source file, and the metadata file parses to a dictionary that lacks \<^verbatim>\<open>permalink\<close>, or
  has it and lacks \<^verbatim>\<open>title\<close>. Then \<^verbatim>\<open>main\<close> ends there with the \<^verbatim>\<open>KeyError\<close> of
  line 65, or of line 72: nothing is printed for the identifier, no warning either.
\<close>

theorem missing_permalink_or_title_aborts_run:
  assumes "startup en w0 = (Inr (YMap ckvs), w1)"
    and "map_of ckvs (YStr ''content_ids'') = Some (YSeq (pre @ i # post))"
    and "load_loop en pre [] (w1\<lparr>trace := trace w1 @ [Print ''Loading content and metadata...'']\<rparr>)
           = (Inr rc, w2)"
    and "map_of (files w2) (item_dir_of en i) = Some Dir"
    and "yml_of (children (item_dir_of en i) (files w2)) = Some mf"
    and "tex_of (children (item_dir_of en i) (files w2)) = Some tf"
    and "map_of (files w2) (os_path_join (item_dir_of en i) mf) = Some (File raw)"
    and "safe_load en raw = Inr (YMap kvs)"
    and "map_of kvs (YStr ''permalink'') = None \<or> map_of kvs (YStr ''title'') = None"
  shows "main en w0 =
           (Inl (KeyError (YStr (if map_of kvs (YStr ''permalink'') = None then ''permalink''
                                 else ''title''))), w2)"
proof -
  let ?e = "KeyError (YStr (if map_of kvs (YStr ''permalink'') = None then ''permalink''
                                 else ''title''))"
  have "load_item en i rc w2 = (Inl ?e, w2)"
    using assms(4-9) by (auto simp: load_item_result Let_def)
  then have "load_content en (YMap ckvs) w1 = (Inl ?e, w2)"
    using assms(2,3) by (simp add: load_content_seq [OF refl assms(2)] load_loop_raises)
  then show ?thesis
    using assms(1) by (rule main_load_raises [rotated])
qed

theorem missing_permalink_or_title_aborts_run_witness:
  "main (ex_env 0) ex_nolink =
     (Inl (KeyError (YStr ''permalink'')),
      \<lparr>files = files ex_nolink @ [(''output'', Dir)],
       trace = [Print ''--- Starting ARA Release Build Process ---'', Makedirs ''output'',
                Print ''Loading content and metadata...'']\<rparr>)"
proof -
  let ?w1 = "\<lparr>files = files ex_nolink @ [(''output'', Dir)],
              trace = [Print ''--- Starting ARA Release Build Process ---'',
                       Makedirs ''output'']\<rparr>"
  let ?w2 = "?w1\<lparr>trace := trace ?w1 @ [Print ''Loading content and metadata...'']\<rparr>"
  let ?kvs = "[(YStr ''title'', YStr ''No link'')]"
  have d: "item_dir_of (ex_env 0) (YInt 1) = ''submissions/1''"
    by (simp add: item_dir_of_def const_defs py_defs os_path_join_def)
  have h1: "startup (ex_env 0) ex_nolink =
      (Inr (YMap [(YStr ''content_ids'', YSeq [YInt 1, YInt 2, YInt 3]),
                  (YStr ''release_volume'', YStr ''25.1'')]), ?w1)"
    by (simp add: eval_defs)
  have h2: "map_of [(YStr ''content_ids'', YSeq [YInt 1, YInt 2, YInt 3]),
                    (YStr ''release_volume'', YStr ''25.1'')] (YStr ''content_ids'') =
      Some (YSeq ([] @ YInt 1 # [YInt 2, YInt 3]))"
    by simp
  have h3: "load_loop (ex_env 0) [] [] ?w2 = (Inr [], ?w2)"
    by (simp add: io_return_def)
  have h4: "map_of (files ?w2) (item_dir_of (ex_env 0) (YInt 1)) = Some Dir"
    unfolding d by (simp add: ex_nolink_def)
  have h5: "yml_of (children (item_dir_of (ex_env 0) (YInt 1)) (files ?w2)) = Some ''a.yml''"
    unfolding d by (simp add: ex_nolink_def yml_of_def children_def is_child_def endswith_def)
  have h6: "tex_of (children (item_dir_of (ex_env 0) (YInt 1)) (files ?w2)) = Some ''a.tex''"
    unfolding d by (simp add: ex_nolink_def tex_of_def children_def is_child_def endswith_def)
  have h7: "map_of (files ?w2) (os_path_join (item_dir_of (ex_env 0) (YInt 1)) ''a.yml'') =
      Some (File ''meta0'')"
    unfolding d by (simp add: ex_nolink_def os_path_join_def)
  have h8: "safe_load (ex_env 0) ''meta0'' = Inr (YMap ?kvs)"
    by (simp add: ex_env_def ex_safe_load_def)
  have h9: "map_of ?kvs (YStr ''permalink'') = None \<or> map_of ?kvs (YStr ''title'') = None"
    by simp
  show ?thesis
    using missing_permalink_or_title_aborts_run [OF h1 h2 h3 h4 h5 h6 h7 h8 h9] by simp
qed

lemma content_id_enriched: "content_id \<lparr>metadata = enriched en i kvs p, tex_path = t\<rparr> = Some i"
  by (simp add: content_id_def enriched_def update_conv')

lemma load_item_step:
  assumes "load_item en i rc w = (Inr rc', w')"
  shows "files w' = files w \<and>
         (if skipped en (files w) i then rc' = rc
          else \<exists>c. rc' = rc @ [c] \<and> content_id c = Some i)"
  using assms
  by (auto simp: load_item_result skipped_iff Let_def content_id_enriched
      split: option.splits node.splits sum.splits yval.splits)

lemma load_loop_order:
  "load_loop en ids acc w = (Inr rc, w') \<Longrightarrow>
     files w' = files w \<and>
     (\<exists>new. rc = acc @ new \<and>
        map content_id new = map Some (filter (\<lambda>i. \<not> skipped en (files w) i) ids))"
proof (induction ids arbitrary: acc w)
  case Nil
  then show ?case by (simp add: io_return_def)
next
  case (Cons i ids)
  from Cons.prems obtain rc1 w1 where
    step: "load_item en i acc w = (Inr rc1, w1)" and rest: "load_loop en ids rc1 w1 = (Inr rc, w')"
    by (auto simp: io_bind_def split: prod.splits sum.splits)
  from load_item_step [OF step] have
    fs: "files w1 = files w" and
    one: "if skipped en (files w) i then rc1 = acc
          else \<exists>c. rc1 = acc @ [c] \<and> content_id c = Some i"
    by simp_all
  from Cons.IH [OF rest] fs obtain new where
    fs': "files w' = files w" and
    new: "rc = rc1 @ new"
         "map content_id new = map Some (filter (\<lambda>i. \<not> skipped en (files w) i) ids)"
    by auto
  show ?case
  proof (cases "skipped en (files w) i")
    case True
    with one new fs' show ?thesis by simp
  next
    case False
    with one obtain c where "rc1 = acc @ [c]" "content_id c = Some i" by auto
    with new fs' False show ?thesis by simp
  qed
qed

text \<open>
  C5. The manifest lists the identifiers \<open>ids\<close> and the loader returns the content list
  \<open>rc\<close>. Then the identifiers the items of \<open>rc\<close> carry are, in this order, the identifiers of
  \<open>ids\<close> that the condition of line 58 does not skip.
\<close>

theorem content_list_follows_manifest:
  assumes "map_of ckvs (YStr ''content_ids'') = Some (YSeq ids)"
    and "load_content en (YMap ckvs) w = (Inr rc, w')"
  shows "map content_id rc = map Some (filter (\<lambda>i. \<not> skipped en (files w) i) ids)"
  using assms(2) load_loop_order [of en ids "[]" _ rc w']
  by (simp add: load_content_seq [OF refl assms(1)])

theorem content_list_follows_manifest_witness:
  "map content_id [ex_item1, ex_item3] =
     map Some (filter (\<lambda>i. \<not> skipped (ex_env 0) (files ex_w1) i) [YInt 1, YInt 2, YInt 3]) \<and>
   map content_id [ex_item1, ex_item3] = [Some (YInt 1), Some (YInt 3)]"
proof -
  have h1: "map_of [(YStr ''content_ids'', YSeq [YInt 1, YInt 2, YInt 3]),
                    (YStr ''release_volume'', YStr ''25.1'')] (YStr ''content_ids'') =
      Some (YSeq [YInt 1, YInt 2, YInt 3])"
    by simp
  have h2: "load_content (ex_env 0)
              (YMap [(YStr ''content_ids'', YSeq [YInt 1, YInt 2, YInt 3]),
                     (YStr ''release_volume'', YStr ''25.1'')]) ex_w1 =
            (Inr [ex_item1, ex_item3], ex_w2)"
    using ex_load_content [of 0] by (simp add: ex_config_def)
  have "map content_id [ex_item1, ex_item3] = [Some (YInt 1), Some (YInt 3)]"
    by (simp add: content_id_def ex_item1_def ex_item3_def ex_meta1_def ex_meta3_def)
  with content_list_follows_manifest [OF h1 h2] show ?thesis by simp
qed

section \<open>What a statement adds to the trace\<close>

lemma emits_onlyI:
  "(\<And>w. \<exists>es. trace (snd (m w)) = trace w @ es \<and> list_all P es) \<Longrightarrow> emits_only P m"
  by (simp add: emits_only_def)

lemma emits_only_silent: "(\<And>w. trace (snd (m w)) = trace w) \<Longrightarrow> emits_only P m"
  by (simp add: emits_only_def)

lemma emits_only_return: "emits_only P (io_return x)"
  by (simp add: emits_only_def io_return_def)

lemma emits_only_raise: "emits_only P (io_raise e)"
  by (simp add: emits_only_def io_raise_def)

lemma emits_only_lift: "emits_only P (io_lift r)"
  by (simp add: emits_only_def io_lift_def)

lemma emits_only_emit: "P e \<Longrightarrow> emits_only P (emit e)"
  by (simp add: emits_only_def emit_def)

lemma emits_only_print: "P (Print s) \<Longrightarrow> emits_only P (print s)"
  by (simp add: print_def emits_only_emit)

lemma emits_only_bind:
  assumes "emits_only P m" and "\<And>x. emits_only P (f x)"
  shows "emits_only P (io_bind m f)"
proof (rule emits_onlyI)
  fix w
  obtain r w1 where m: "m w = (r, w1)" by (cases "m w")
  from assms(1) obtain es where es: "trace w1 = trace w @ es" "list_all P es"
    using m by (auto simp: emits_only_def dest: spec [of _ w])
  show "\<exists>es. trace (snd (io_bind m f w)) = trace w @ es \<and> list_all P es"
  proof (cases r)
    case (Inl e)
    with m es show ?thesis by (auto simp: io_bind_def)
  next
    case (Inr x)
    from assms(2) [of x] obtain es' where
      "trace (snd (f x w1)) = trace w1 @ es'" "list_all P es'"
      by (auto simp: emits_only_def dest: spec [of _ w1])
    with m es Inr show ?thesis by (auto simp: io_bind_def)
  qed
qed

lemma emits_only_getitem: "emits_only P (getitem d k)"
  by (simp add: getitem_def emits_only_return emits_only_raise split: yval.splits option.splits)

lemma emits_only_set_files_fun: "emits_only P (\<lambda>w. set_files (g w) w)"
  by (simp add: emits_only_def set_files_def)

lemma emits_only_open_write: "P (WriteFile p c) \<Longrightarrow> emits_only P (open_write p c)"
  unfolding open_write_def
  by (intro emits_only_bind emits_only_emit emits_only_silent)
     (simp_all add: io_raise_def set_files_def)

lemma emits_only_move: "P (Move a b) \<Longrightarrow> emits_only P (shutil_move a b)"
  unfolding shutil_move_def
  by (intro emits_only_bind emits_only_emit emits_only_silent)
     (simp_all add: io_raise_def io_return_def set_files_def Let_def split: option.splits)

lemma emits_only_copytree: "P (Copytree a b) \<Longrightarrow> emits_only P (shutil_copytree a b)"
  unfolding shutil_copytree_def
  by (intro emits_only_bind emits_only_emit emits_only_silent)
     (simp_all add: io_raise_def io_return_def set_files_def
       split: option.splits node.splits sum.splits)

lemma emits_only_render:
  "P (Render n c cl it) \<Longrightarrow> emits_only P (render_template en n c cl it)"
  unfolding render_template_def
  by (intro emits_only_bind emits_only_emit emits_only_silent) (simp_all add: io_lift_def)

lemma emits_only_run_pdflatex:
  assumes "\<And>s. P (Print s)" and "\<And>a. P (Exec a)"
  shows "emits_only P (run_pdflatex en tex out)"
  by (rule emits_onlyI)
     (simp add: run_pdflatex_result Let_def assms split: option.splits prod.splits)

lemma emits_only_build_item:
  assumes "\<And>s. P (Print s)" and "\<And>a. P (Exec a)" and "\<And>a b. P (Move a b)"
    and "\<And>a b. P (WriteFile a b)" and "P (Render ''paper.html.j2'' config rc (Some item))"
  shows "emits_only P (build_item en config rc item)"
  unfolding build_item_def Let_def
  by (intro emits_only_bind emits_only_getitem emits_only_print emits_only_run_pdflatex
      emits_only_move emits_only_render emits_only_open_write assms)

lemma emits_only_build_loop:
  assumes "\<And>s. P (Print s)" and "\<And>a. P (Exec a)" and "\<And>a b. P (Move a b)"
    and "\<And>a b. P (WriteFile a b)"
    and "\<And>item. item \<in> set items \<Longrightarrow> P (Render ''paper.html.j2'' config rc (Some item))"
  shows "emits_only P (build_loop en config rc items)"
  using assms(5)
proof (induction items)
  case Nil
  show ?case by (simp add: emits_only_return)
next
  case (Cons item items)
  show ?case
    by (simp, intro emits_only_bind emits_only_build_item assms(1-4) Cons.IH)
       (simp_all add: Cons.prems)
qed

lemma emits_only_copy_assets: "P (Copytree ASSETS_DIR (os_path_join OUTPUT_DIR ASSETS_DIR)) \<Longrightarrow> emits_only P copy_assets"
proof (rule emits_onlyI)
  fix w
  assume p: "P (Copytree ASSETS_DIR (os_path_join OUTPUT_DIR ASSETS_DIR))"
  from emits_only_copytree [of P, OF p] show "\<exists>es. trace (snd (copy_assets w)) = trace w @ es \<and> list_all P es"
    by (auto simp: copy_assets_def emits_only_def io_return_def)
qed

lemma emits_only_after_load:
  assumes "\<And>s. P (Print s)" and "\<And>a. P (Exec a)" and "\<And>a b. P (Move a b)"
    and "\<And>a b. P (WriteFile a b)" and "\<And>a b. P (Copytree a b)"
    and "\<And>item. item \<in> set rc \<Longrightarrow> P (Render ''paper.html.j2'' config rc (Some item))"
    and "P (Render ''release.html.j2'' config rc None)"
  shows "emits_only P (io_bind (build_pdfs en config rc) (\<lambda>_. finish en config rc))"
  unfolding build_pdfs_def finish_def build_master_def build_website_def
  by (intro emits_only_bind emits_only_print emits_only_build_loop emits_only_render
      emits_only_open_write emits_only_copy_assets assms)

lemma renders_after_load:
  "emits_only (renders_with config rc) (io_bind (build_pdfs en config rc) (\<lambda>_. finish en config rc))"
  by (rule emits_only_after_load) (simp_all add: renders_with_def)


section \<open>The metadata record\<close>

lemma enriched_lookup:
  "map_of (AList.update (YStr ''pdf_link'') v (AList.update (YStr ''id'') i kvs)) k =
     (if k = YStr ''id'' then Some i else if k = YStr ''pdf_link'' then Some v else map_of kvs k)"
  by (simp add: update_conv')

lemma enriched_from_loaded:
  assumes "yml_of (children (item_dir_of en i) fs) = Some mf"
    and "map_of fs (os_path_join (item_dir_of en i) mf) = Some (File raw)"
    and "safe_load en raw = Inr (YMap kvs)"
    and "map_of kvs (YStr ''permalink'') = Some p"
  shows "enriched_from en fs \<lparr>metadata = enriched en i kvs p, tex_path = t\<rparr>"
  unfolding enriched_from_def
  apply (rule exI [of _ i], rule exI [of _ raw], rule exI [of _ kvs], rule exI [of _ p])
  using assms by (simp add: metadata_text_def enriched_def enriched_lookup)

lemma load_item_enriches:
  assumes "load_item en i rc w = (Inr rc', w')"
  shows "rc' = rc \<or> (\<exists>c. rc' = rc @ [c] \<and> enriched_from en (files w) c)"
  using assms
  by (auto simp: load_item_result Let_def enriched_from_loaded
      split: option.splits node.splits sum.splits yval.splits prod.splits)

lemma load_loop_enriches:
  "load_loop en ids acc w = (Inr rc, w') \<Longrightarrow> list_all (enriched_from en (files w)) acc \<Longrightarrow>
     list_all (enriched_from en (files w)) rc"
proof (induction ids arbitrary: acc w)
  case Nil
  then show ?case by (simp add: io_return_def)
next
  case (Cons i ids)
  from Cons.prems(1) obtain rc1 w1 where
    step: "load_item en i acc w = (Inr rc1, w1)" and rest: "load_loop en ids rc1 w1 = (Inr rc, w')"
    by (auto simp: io_bind_def split: prod.splits sum.splits)
  have fs: "files w1 = files w" using load_item_step [OF step] by simp
  have "list_all (enriched_from en (files w)) rc1"
    using load_item_enriches [OF step] Cons.prems(2) by auto
  with Cons.IH [OF rest] fs show ?case by simp
qed

text \<open>
  C6. A run has loaded the content list \<open>rc\<close>. Then the dictionary of every item of \<open>rc\<close>
  is what its metadata file parses to, with \<^verbatim>\<open>id\<close> set to the identifier and \<^verbatim>\<open>pdf_link\<close>
  set to the permalink followed by \<^verbatim>\<open>.pdf\<close>, every other key having the parsed value; and
  from there to the end of the run the script only appends to the trace, every template
  rendering in it receiving the manifest, this very list \<open>rc\<close> and an item of it.
\<close>

theorem metadata_enriched_at_load_only:
  assumes "startup en w0 = (Inr (YMap ckvs), w1)"
    and "map_of ckvs (YStr ''content_ids'') = Some (YSeq ids)"
    and "load_content en (YMap ckvs) w1 = (Inr rc, w2)"
  shows "list_all (enriched_from en (files w1)) rc \<and>
         (\<exists>es. trace (snd (main en w0)) = trace w2 @ es \<and>
               list_all (renders_with (YMap ckvs) rc) es)"
proof -
  have "list_all (enriched_from en (files w1)) rc"
    using assms(3)
      load_loop_enriches [of en ids "[]"
        "w1\<lparr>trace := trace w1 @ [Print ''Loading content and metadata...'']\<rparr>" rc w2]
    by (simp add: load_content_seq [OF refl assms(2)])
  moreover have "main en w0 =
      io_bind (build_pdfs en (YMap ckvs) rc) (\<lambda>_. finish en (YMap ckvs) rc) w2"
    using assms(1,3) by (simp add: main_stages io_bind_def)
  ultimately show ?thesis
    using renders_after_load [of "YMap ckvs" rc en]
    by (auto simp: emits_only_def dest: spec [of _ w2])
qed

theorem metadata_enriched_at_load_only_witness:
  "list_all (enriched_from (ex_env 0) (files ex_w1)) [ex_item1, ex_item3] \<and>
   (\<exists>es. trace (snd (main (ex_env 0) ex_world)) = trace ex_w2 @ es \<and>
         list_all (renders_with ex_config [ex_item1, ex_item3]) es)"
proof -
  let ?ckvs = "[(YStr ''content_ids'', YSeq [YInt 1, YInt 2, YInt 3]),
                (YStr ''release_volume'', YStr ''25.1'')]"
  have h1: "startup (ex_env 0) ex_world = (Inr (YMap ?ckvs), ex_w1)"
    using ex_startup [of 0] by (simp add: ex_config_def)
  have h2: "map_of ?ckvs (YStr ''content_ids'') = Some (YSeq [YInt 1, YInt 2, YInt 3])"
    by simp
  have h3: "load_content (ex_env 0) (YMap ?ckvs) ex_w1 = (Inr [ex_item1, ex_item3], ex_w2)"
    using ex_load_content [of 0] by (simp add: ex_config_def)
  show ?thesis
    using metadata_enriched_at_load_only [OF h1 h2 h3] by (simp add: ex_config_def)
qed


section \<open>The output directory\<close>











section \<open>The asset copier\<close>

lemma copied_lookup: "map_of (copied src dst fs) (dst @ ''/'' @ r) = map_of fs (src @ ''/'' @ r)"
proof (induction fs)
  case Nil
  show ?case by (simp add: copied_def)
next
  case (Cons e fs)
  obtain q n where e: "e = (q, n)" by (cases e)
  show ?case
  proof (cases "prefix (src @ ''/'') q")
    case True
    then obtain r' where q: "q = src @ ''/'' @ r'" by (auto simp: prefix_def)
    with Cons.IH e show ?thesis by (simp add: copied_def)
  next
    case False
    then have "q \<noteq> src @ ''/'' @ r" by (auto simp: prefix_def)
    with False Cons.IH e show ?thesis by (simp add: copied_def)
  qed
qed

lemma copied_keys: "map_of (copied src dst fs) k \<noteq> None \<Longrightarrow> prefix (dst @ ''/'') k"
  by (induction fs) (auto simp: copied_def prefix_def split: if_splits)

lemma copytree_result:
  assumes "map_of (files w) src = Some Dir" and "mkdirs dst (files w) = Inr fs"
  shows "shutil_copytree src dst w =
           (Inr (), \<lparr>files = fs @ copied src dst (files w),
                     trace = trace w @ [Copytree src dst]\<rparr>)"
  using assms by (simp add: shutil_copytree_def copied_def io_defs)

lemma copy_assets_present:
  assumes src: "map_of (files w) ASSETS_DIR = Some Dir"
    and out: "map_of (files w) OUTPUT_DIR = Some Dir"
    and free: "\<And>q. under (os_path_join OUTPUT_DIR ASSETS_DIR) q \<Longrightarrow> map_of (files w) q = None"
  shows "\<exists>w'. copy_assets w = (Inr (), w') \<and>
            trace w' = trace w @ [Copytree ASSETS_DIR (os_path_join OUTPUT_DIR ASSETS_DIR)] \<and>
            map_of (files w') (os_path_join OUTPUT_DIR ASSETS_DIR) = Some Dir \<and>
            (\<forall>r. map_of (files w') (os_path_join OUTPUT_DIR ASSETS_DIR @ ''/'' @ r) =
                   map_of (files w) (ASSETS_DIR @ ''/'' @ r)) \<and>
            (\<forall>q. \<not> under (os_path_join OUTPUT_DIR ASSETS_DIR) q \<longrightarrow>
                   map_of (files w') q = map_of (files w) q)"
proof -
  let ?dst = "os_path_join OUTPUT_DIR ASSETS_DIR"
  have anc: "ancestors ?dst = [OUTPUT_DIR]"
    by (simp add: ancestors_def os_path_join_def const_defs)
  have mk: "mkdirs ?dst (files w) = Inr (files w @ [(?dst, Dir)])"
    using out free [of ?dst]
    by (simp add: mkdirs_def anc is_file_def add_dir_def under_def)
  let ?w' = "\<lparr>files = (files w @ [(?dst, Dir)]) @ copied ASSETS_DIR ?dst (files w),
              trace = trace w @ [Copytree ASSETS_DIR ?dst]\<rparr>"
  have run: "copy_assets w = (Inr (), ?w')"
    using src by (simp add: copy_assets_def os_path_exists_def copytree_result [OF src mk])
  have nokey: "map_of (copied ASSETS_DIR ?dst (files w)) q = None" if "\<not> prefix (?dst @ ''/'') q" for q
    using that copied_keys [of ASSETS_DIR ?dst "files w" q] by blast
  have d: "map_of (files ?w') ?dst = Some Dir"
    using free [of ?dst] by (simp add: map_add_def under_def nokey)
  have c: "map_of (files ?w') (?dst @ ''/'' @ r) = map_of (files w) (ASSETS_DIR @ ''/'' @ r)" for r
    using free [of "?dst @ ''/'' @ r"] copied_lookup [of ASSETS_DIR ?dst "files w" r]
    by (simp add: map_add_def under_def split: option.splits)
  have o: "map_of (files ?w') q = map_of (files w) q" if "\<not> under ?dst q" for q
    using that by (auto simp: map_add_def under_def nokey split: option.splits)
  show ?thesis
    using run d c o by (intro exI [of _ ?w']) simp
qed

text \<open>
  C8. When nothing is stored under \<^verbatim>\<open>assets\<close>, lines 130-131 change nothing and raise
  nothing. When something is, they make one \<^verbatim>\<open>copytree\<close> call from \<^verbatim>\<open>assets\<close> to
  \<^verbatim>\<open>output/assets\<close> and nothing else. When \<^verbatim>\<open>assets\<close> is a directory, the output
  directory exists and \<^verbatim>\<open>output/assets\<close> is still free, that call succeeds, after which
  \<^verbatim>\<open>output/assets\<close> is a directory, every path below it holds what the same path below
  \<^verbatim>\<open>assets\<close> holds, and every other path is as it was.
\<close>

theorem assets_copied_when_present:
  "(\<not> os_path_exists ASSETS_DIR w \<longrightarrow> copy_assets w = (Inr (), w)) \<and>
   (os_path_exists ASSETS_DIR w \<longrightarrow>
      trace (snd (copy_assets w)) =
        trace w @ [Copytree ASSETS_DIR (os_path_join OUTPUT_DIR ASSETS_DIR)]) \<and>
   (map_of (files w) ASSETS_DIR = Some Dir \<and> map_of (files w) OUTPUT_DIR = Some Dir \<and>
    (\<forall>q. under (os_path_join OUTPUT_DIR ASSETS_DIR) q \<longrightarrow> map_of (files w) q = None) \<longrightarrow>
      (\<exists>w'. copy_assets w = (Inr (), w') \<and>
            trace w' = trace w @ [Copytree ASSETS_DIR (os_path_join OUTPUT_DIR ASSETS_DIR)] \<and>
            map_of (files w') (os_path_join OUTPUT_DIR ASSETS_DIR) = Some Dir \<and>
            (\<forall>r. map_of (files w') (os_path_join OUTPUT_DIR ASSETS_DIR @ ''/'' @ r) =
                   map_of (files w) (ASSETS_DIR @ ''/'' @ r)) \<and>
            (\<forall>q. \<not> under (os_path_join OUTPUT_DIR ASSETS_DIR) q \<longrightarrow>
                   map_of (files w') q = map_of (files w) q)))"
proof (intro conjI impI)
  assume "\<not> os_path_exists ASSETS_DIR w"
  then show "copy_assets w = (Inr (), w)"
    by (simp add: copy_assets_def io_return_def)
next
  assume "os_path_exists ASSETS_DIR w"
  then show "trace (snd (copy_assets w)) =
      trace w @ [Copytree ASSETS_DIR (os_path_join OUTPUT_DIR ASSETS_DIR)]"
    by (simp add: copy_assets_def shutil_copytree_def io_defs
        split: option.splits node.splits sum.splits)
next
  assume "map_of (files w) ASSETS_DIR = Some Dir \<and> map_of (files w) OUTPUT_DIR = Some Dir \<and>
    (\<forall>q. under (os_path_join OUTPUT_DIR ASSETS_DIR) q \<longrightarrow> map_of (files w) q = None)"
  then show "\<exists>w'. copy_assets w = (Inr (), w') \<and>
            trace w' = trace w @ [Copytree ASSETS_DIR (os_path_join OUTPUT_DIR ASSETS_DIR)] \<and>
            map_of (files w') (os_path_join OUTPUT_DIR ASSETS_DIR) = Some Dir \<and>
            (\<forall>r. map_of (files w') (os_path_join OUTPUT_DIR ASSETS_DIR @ ''/'' @ r) =
                   map_of (files w) (ASSETS_DIR @ ''/'' @ r)) \<and>
            (\<forall>q. \<not> under (os_path_join OUTPUT_DIR ASSETS_DIR) q \<longrightarrow>
                   map_of (files w') q = map_of (files w) q)"
    using copy_assets_present [of w] by blast
qed

theorem assets_copied_when_present_witness:
  "copy_assets ex_bare = (Inr (), ex_bare) \<and>
   (\<exists>w'. copy_assets ex_w1 = (Inr (), w') \<and>
         trace w' = trace ex_w1 @ [Copytree ''assets'' ''output/assets''] \<and>
         map_of (files w') ''output/assets'' = Some Dir \<and>
         map_of (files w') ''output/assets/style.css'' = Some (File ''css''))"
proof -
  have dst: "os_path_join OUTPUT_DIR ASSETS_DIR = ''output/assets''"
    by (simp add: os_path_join_def const_defs)
  have "\<not> os_path_exists ASSETS_DIR ex_bare"
    by (simp add: os_path_exists_def ex_bare_def ASSETS_DIR_def)
  with assets_copied_when_present [of ex_bare] have absent: "copy_assets ex_bare = (Inr (), ex_bare)"
    by blast
  have pre: "map_of (files ex_w1) ASSETS_DIR = Some Dir \<and>
             map_of (files ex_w1) OUTPUT_DIR = Some Dir \<and>
             (\<forall>q. under (os_path_join OUTPUT_DIR ASSETS_DIR) q \<longrightarrow> map_of (files ex_w1) q = None)"
    unfolding dst by (auto simp: ex_w1_def const_defs under_def prefix_def)
  with assets_copied_when_present [of ex_w1] obtain w' where
    w': "copy_assets ex_w1 = (Inr (), w')"
        "trace w' = trace ex_w1 @ [Copytree ASSETS_DIR (os_path_join OUTPUT_DIR ASSETS_DIR)]"
        "map_of (files w') (os_path_join OUTPUT_DIR ASSETS_DIR) = Some Dir"
        "\<And>r. map_of (files w') (os_path_join OUTPUT_DIR ASSETS_DIR @ ''/'' @ r) =
               map_of (files ex_w1) (ASSETS_DIR @ ''/'' @ r)"
    by blast
  have "map_of (files w') ''output/assets/style.css'' = Some (File ''css'')"
    using w'(4) [of "''style.css''"] unfolding dst by (simp add: ex_w1_def ASSETS_DIR_def)
  with absent w'(1-3) show ?thesis
    unfolding dst by (auto simp: ASSETS_DIR_def)
qed

section \<open>The contents of the output directory\<close>

subsection \<open>Paths and names in the output directory\<close>





lemma out_path_inj [simp]: "(out_path n = out_path m) = (n = m)"
  by (simp add: out_path_def)

lemma out_path_ne [simp]: "out_path n \<noteq> OUTPUT_DIR" "OUTPUT_DIR \<noteq> out_path n"
  by (simp_all add: out_path_def)

























subsection \<open>One item, and the loop over the items\<close>




lemma endswith_pdf [simp]: "endswith (x @ ''.pdf'') ''.pdf''" "\<not> endswith (x @ ''.html'') ''.pdf''"
  "\<not> endswith ''index.html'' ''.pdf''" "\<not> endswith ASSETS_DIR ''.pdf''"
  by (simp_all add: endswith_def ASSETS_DIR_def)

lemma endswith_html [simp]: "endswith (x @ ''.html'') ''.html''" "\<not> endswith (x @ ''.pdf'') ''.html''"
  "endswith ''index.html'' ''.html''" "\<not> endswith ASSETS_DIR ''.html''"
  by (simp_all add: endswith_def ASSETS_DIR_def)




subsection \<open>The last steps and the run\<close>

















end
